theory Spec2Isabelle
  imports Main
begin

section \<open>The free store, objects and outcomes\<close>

text \<open>
  The header \<^verbatim>\<open>indirect.h\<close> is embedded over an explicit free store. A pointer is
  an \<open>addr option\<close> (\<open>None\<close> is \<^verbatim>\<open>nullptr\<close>). An object carries its dynamic type
  (what \<^verbatim>\<open>typeid\<close> reports) and a value. A \<^verbatim>\<open>std::unique_ptr\<close> to a control block is
  a \<open>cb option\<close>: the block is held by value, since it has exactly one owner, and it
  records the address of its own allocation.
\<close>

type_synonym addr = nat
type_synonym type_id = string
type_synonym var = nat

datatype error =
    AssertionFailure      \<comment> \<open>a failed \<^verbatim>\<open>assert\<close> (debug builds only)\<close>
  | UndefinedBehaviour    \<comment> \<open>a null or dangling pointer is dereferenced\<close>
  | BadAlloc              \<comment> \<open>\<^verbatim>\<open>operator new\<close> throws \<^verbatim>\<open>std::bad_alloc\<close>\<close>
  | UserException         \<comment> \<open>a constructor or copier of the payload type throws\<close>
  | Terminate             \<comment> \<open>an exception leaves a \<^verbatim>\<open>noexcept\<close> function\<close>

record 'v obj =
  dyn_type :: type_id
  val :: 'v

text \<open>
  A cell of the free store is a complete object made by \<^verbatim>\<open>new U(...)\<close>, the storage
  of a \<^verbatim>\<open>pointer_control_block\<close> or \<^verbatim>\<open>delegating_control_block\<close>, or the storage of a
  \<^verbatim>\<open>direct_control_block\<close>, which holds its member \<^verbatim>\<open>u_\<close> inline.
\<close>

datatype 'v cell = Object "'v obj" | Block | DirectBlock "'v obj"

text \<open>
  \<open>avail\<close> lists the addresses \<^verbatim>\<open>operator new\<close> will hand out next, in order. An
  address that is still in use is skipped; when none is left the allocation throws
  \<^verbatim>\<open>std::bad_alloc\<close>. Every behaviour of an allocator (any fresh address, reuse of a
  freed one, failure at any point) is some choice of \<open>avail\<close>.
\<close>

record 'v heap =
  mem :: "addr \<rightharpoonup> 'v cell"
  avail :: "addr list"

definition obj_at :: "'v heap \<Rightarrow> addr \<Rightarrow> 'v obj option" where
  "obj_at h a =
     (case mem h a of
        Some (Object ob) \<Rightarrow> Some ob
      | Some (DirectBlock ob) \<Rightarrow> Some ob
      | _ \<Rightarrow> None)"

definition alloc :: "'v heap \<Rightarrow> (addr \<times> 'v heap) option" where
  "alloc h =
     (case dropWhile (\<lambda>a. mem h a \<noteq> None) (avail h) of
        [] \<Rightarrow> None
      | a # rest \<Rightarrow> Some (a, h\<lparr>avail := rest\<rparr>))"

definition free :: "addr \<Rightarrow> 'v heap \<Rightarrow> 'v heap" where
  "free a h = h\<lparr>mem := (mem h)(a := None)\<rparr>"

definition store :: "addr \<Rightarrow> 'v cell \<Rightarrow> 'v heap \<Rightarrow> 'v heap" where
  "store a c h = h\<lparr>mem := (mem h)(a \<mapsto> c)\<rparr>"

text \<open>
  What the library does not define is a parameter: whether \<^verbatim>\<open>assert\<close> is compiled in,
  which payload types are polymorphic (have a virtual function), and the constructors
  of the payload types. \<open>construct E T ts\<close> is the value of the object
  \<^verbatim>\<open>T(ts...)\<close>, \<open>copy_construct E T t\<close> the value of \<^verbatim>\<open>T(t)\<close> for an object \<open>t\<close>
  seen through a \<^verbatim>\<open>const T&\<close>; either may throw.
\<close>

record ('a, 'v) env =
  debug :: bool
  polymorphic :: "type_id \<Rightarrow> bool"
  construct :: "type_id \<Rightarrow> 'a \<Rightarrow> error + 'v"
  copy_construct :: "type_id \<Rightarrow> 'v obj \<Rightarrow> error + 'v"

section \<open>Copy and delete strategies\<close>

text \<open>
  A copier is any callable \<^verbatim>\<open>U* operator()(const U&)\<close>, a deleter any callable on a
  \<^verbatim>\<open>U*\<close>: functions on the free store.
\<close>

type_synonym 'v copier = "'v obj \<Rightarrow> 'v heap \<Rightarrow> (error + addr option) \<times> 'v heap"
type_synonym 'v deleter = "addr \<Rightarrow> 'v heap \<Rightarrow> 'v heap"

text \<open>
  \<^verbatim>\<open>new T(t)\<close>: storage is obtained first, then \<open>T\<close>'s copy constructor runs; when
  it throws, \<^verbatim>\<open>operator delete\<close> releases the storage that was obtained.
\<close>

definition default_copier :: "('a, 'v) env \<Rightarrow> type_id \<Rightarrow> 'v copier" where
  "default_copier E T t h =
     (case alloc h of
        None \<Rightarrow> (Inl BadAlloc, h)
      | Some (a, h1) \<Rightarrow>
          (case copy_construct E T t of
             Inl e \<Rightarrow> (Inl e, free a h1)
           | Inr v \<Rightarrow> (Inr (Some a), store a (Object \<lparr>dyn_type = T, val = v\<rparr>) h1)))"

definition default_deleter :: "'v deleter" where
  "default_deleter t h = free t h"

section \<open>Control blocks\<close>

text \<open>
  \<open>PointerCB a p c d\<close> is a \<^verbatim>\<open>pointer_control_block\<close> allocated at \<open>a\<close> with members
  \<^verbatim>\<open>p_\<close> (the pointer and its deleter \<open>d\<close>) and \<^verbatim>\<open>c_\<close>; \<open>DirectCB a\<close> is a
  \<^verbatim>\<open>direct_control_block\<close> whose member \<^verbatim>\<open>u_\<close> is the object of the cell at \<open>a\<close>;
  \<open>DelegatingCB a b\<close> is a \<^verbatim>\<open>delegating_control_block\<close> with member \<^verbatim>\<open>delegate_\<close>.
\<close>

datatype 'v cb =
    PointerCB addr "addr option" "'v copier" "'v deleter"
  | DirectCB addr
  | DelegatingCB addr "'v cb option"

text \<open>\<^verbatim>\<open>ptr()\<close>. The delegating block calls through \<^verbatim>\<open>delegate_\<close> unchecked.\<close>

fun ptr :: "'v cb \<Rightarrow> error + addr option" where
  "ptr (PointerCB a p c d) = Inr p"
| "ptr (DirectCB a) = Inr (Some a)"
| "ptr (DelegatingCB a None) = Inl UndefinedBehaviour"
| "ptr (DelegatingCB a (Some b)) = ptr b"

text \<open>
  The destructor of a block followed by the release of its storage, as
  \<^verbatim>\<open>std::unique_ptr\<close> does on reset or destruction. The \<^verbatim>\<open>unique_ptr<U, D>\<close>
  member calls its deleter only on a non-null pointer.
\<close>

fun destroy :: "'v cb \<Rightarrow> 'v heap \<Rightarrow> 'v heap" where
  "destroy (PointerCB a p c d) h =
     free a (case p of None \<Rightarrow> h | Some u \<Rightarrow> d u h)"
| "destroy (DirectCB a) h = free a h"
| "destroy (DelegatingCB a None) h = free a h"
| "destroy (DelegatingCB a (Some b)) h = free a (destroy b h)"

definition reset :: "'v cb option \<Rightarrow> 'v heap \<Rightarrow> 'v heap" where
  "reset b h = (case b of None \<Rightarrow> h | Some x \<Rightarrow> destroy x h)"

text \<open>
  \<^verbatim>\<open>clone()\<close>.
  \<^item> \<^verbatim>\<open>pointer_control_block\<close>: \<^verbatim>\<open>assert(p_)\<close>, then the arguments of
    \<^verbatim>\<open>make_unique\<close> are evaluated (the copier runs on \<^verbatim>\<open>*p_\<close> and returns a raw
    pointer), then \<^verbatim>\<open>make_unique\<close> allocates the new block.
  \<^item> \<^verbatim>\<open>direct_control_block\<close>: \<^verbatim>\<open>make_unique\<close> allocates, then the copy
    constructor of the block copies \<^verbatim>\<open>u_\<close>; when that throws the storage that was
    obtained is released.
  \<^item> \<^verbatim>\<open>delegating_control_block\<close>: the delegate is cloned into a temporary
    \<^verbatim>\<open>unique_ptr\<close>, then \<^verbatim>\<open>make_unique\<close> allocates; when that throws the temporary is
    destroyed.
\<close>

fun clone :: "('a, 'v) env \<Rightarrow> 'v cb \<Rightarrow> 'v heap \<Rightarrow> (error + 'v cb) \<times> 'v heap" where
  "clone E (PointerCB a p c d) h =
     (case p of
        None \<Rightarrow> (Inl (if debug E then AssertionFailure else UndefinedBehaviour), h)
      | Some u \<Rightarrow>
          (case obj_at h u of
             None \<Rightarrow> (Inl UndefinedBehaviour, h)
           | Some t \<Rightarrow>
               (case c t h of
                  (Inl e, h1) \<Rightarrow> (Inl e, h1)
                | (Inr u', h1) \<Rightarrow>
                    (case alloc h1 of
                       None \<Rightarrow> (Inl BadAlloc, h1)
                     | Some (a', h2) \<Rightarrow> (Inr (PointerCB a' u' c d), store a' Block h2)))))"
| "clone E (DirectCB a) h =
     (case mem h a of
        Some (DirectBlock t) \<Rightarrow>
          (case alloc h of
             None \<Rightarrow> (Inl BadAlloc, h)
           | Some (a', h1) \<Rightarrow>
               (case copy_construct E (dyn_type t) t of
                  Inl e \<Rightarrow> (Inl e, free a' h1)
                | Inr v \<Rightarrow>
                    (Inr (DirectCB a'),
                     store a' (DirectBlock \<lparr>dyn_type = dyn_type t, val = v\<rparr>) h1)))
      | _ \<Rightarrow> (Inl UndefinedBehaviour, h))"
| "clone E (DelegatingCB a None) h = (Inl UndefinedBehaviour, h)"
| "clone E (DelegatingCB a (Some b)) h =
     (case clone E b h of
        (Inl e, h1) \<Rightarrow> (Inl e, h1)
      | (Inr b', h1) \<Rightarrow>
          (case alloc h1 of
             None \<Rightarrow> (Inl BadAlloc, destroy b' h1)
           | Some (a', h2) \<Rightarrow> (Inr (DelegatingCB a' (Some b')), store a' Block h2)))"

text \<open>
  \<^verbatim>\<open>std::make_unique<direct_control_block<T>>(ts...)\<close>: storage first, then the
  member \<^verbatim>\<open>u_\<close> is constructed from the arguments; when the constructor throws the
  storage that was obtained is released.
\<close>

definition make_direct_control_block ::
  "('a, 'v) env \<Rightarrow> type_id \<Rightarrow> 'a \<Rightarrow> 'v heap \<Rightarrow> (error + 'v cb) \<times> 'v heap" where
  "make_direct_control_block E T ts h =
     (case alloc h of
        None \<Rightarrow> (Inl BadAlloc, h)
      | Some (a, h1) \<Rightarrow>
          (case construct E T ts of
             Inl e \<Rightarrow> (Inl e, free a h1)
           | Inr v \<Rightarrow> (Inr (DirectCB a), store a (DirectBlock \<lparr>dyn_type = T, val = v\<rparr>) h1)))"

text \<open>
  \<^verbatim>\<open>std::make_unique<delegating_control_block<T, U>>(std::move(b))\<close>: the block is
  allocated before the constructor takes the argument.
\<close>

definition make_delegating_control_block ::
  "'v cb option \<Rightarrow> 'v heap \<Rightarrow> (error + 'v cb) \<times> 'v heap" where
  "make_delegating_control_block b h =
     (case alloc h of
        None \<Rightarrow> (Inl BadAlloc, h)
      | Some (a, h1) \<Rightarrow> (Inr (DelegatingCB a b), store a Block h1))"

section \<open>The container\<close>

text \<open>
  An \<^verbatim>\<open>indirect<T>\<close> has the members \<^verbatim>\<open>ptr_\<close> and \<^verbatim>\<open>cb_\<close>, here \<open>m_ptr\<close> and
  \<open>m_cb\<close>. The template arguments are not part of the state: a conversion from
  \<^verbatim>\<open>U*\<close> to \<^verbatim>\<open>T*\<close> keeps the address, and which of the same-type and converting
  overloads is called is decided at compile time. Containers are
  objects with identity (the assignment operators compare \<^verbatim>\<open>&p\<close> with \<^verbatim>\<open>this\<close>), so
  they live in a table of variables; a reference to a container is the name of its
  variable. Every member function takes the names it works on and the state, and
  returns what it throws or \<open>Inr ()\<close>, with the state it leaves.
\<close>

record 'v indirect =
  m_ptr :: "addr option"
  m_cb :: "'v cb option"

record 'v state =
  heap :: "'v heap"
  vars :: "var \<rightharpoonup> 'v indirect"

type_synonym 'v outcome = "(error + unit) \<times> 'v state"

definition null_indirect :: "'v indirect" where
  "null_indirect = \<lparr>m_ptr = None, m_cb = None\<rparr>"

text \<open>\<^verbatim>\<open>indirect()\<close>: both members keep their default initialisers.\<close>

definition default_ctor :: "var \<Rightarrow> 'v state \<Rightarrow> 'v outcome" where
  "default_ctor this s = (Inr (), s\<lparr>vars := (vars s)(this \<mapsto> null_indirect)\<rparr>)"

text \<open>\<^verbatim>\<open>~indirect() = default\<close>: the member \<^verbatim>\<open>cb_\<close> releases its block.\<close>

definition dtor :: "var \<Rightarrow> 'v state \<Rightarrow> 'v state" where
  "dtor this s =
     (case vars s this of
        None \<Rightarrow> s
      | Some c \<Rightarrow> \<lparr>heap = reset (m_cb c) (heap s), vars = (vars s)(this := None)\<rparr>)"

text \<open>
  \<^verbatim>\<open>explicit indirect(U* u, C copier = C{}, D deleter = D{})\<close>. The assertion is
  compiled in debug builds only. For a polymorphic \<open>U\<close>, \<^verbatim>\<open>typeid(*u)\<close> reads the
  object and is the type of the most derived object; for any other \<open>U\<close> the operand
  is not evaluated and \<^verbatim>\<open>typeid(*u)\<close> is \<^verbatim>\<open>typeid(U)\<close>, so the assertion holds. A
  constructor that throws leaves no object behind.
\<close>

definition typeid_deref :: "('a, 'v) env \<Rightarrow> type_id \<Rightarrow> addr \<Rightarrow> 'v heap \<Rightarrow> error + type_id" where
  "typeid_deref E U x h =
     (if polymorphic E U
      then (case obj_at h x of None \<Rightarrow> Inl UndefinedBehaviour | Some ob \<Rightarrow> Inr (dyn_type ob))
      else Inr U)"

definition adopt_ctor ::
  "('a, 'v) env \<Rightarrow> type_id \<Rightarrow> addr option \<Rightarrow> 'v copier \<Rightarrow> 'v deleter \<Rightarrow> var \<Rightarrow> 'v state
     \<Rightarrow> 'v outcome" where
  "adopt_ctor E U u copier deleter this s =
     (case u of
        None \<Rightarrow> (Inr (), s\<lparr>vars := (vars s)(this \<mapsto> null_indirect)\<rparr>)
      | Some x \<Rightarrow>
          (if debug E \<and> typeid_deref E U x (heap s) = Inl UndefinedBehaviour
             then (Inl UndefinedBehaviour, s)
           else if debug E \<and> typeid_deref E U x (heap s) \<noteq> Inr U
             then (Inl AssertionFailure, s)
           else
             (case alloc (heap s) of
                None \<Rightarrow> (Inl BadAlloc, s)
              | Some (a, h1) \<Rightarrow>
                  (Inr (),
                   \<lparr>heap = store a Block h1,
                    vars = (vars s)(this \<mapsto>
                      \<lparr>m_ptr = Some x, m_cb = Some (PointerCB a (Some x) copier deleter)\<rparr>)\<rparr>))))"

text \<open>\<^verbatim>\<open>indirect(const indirect& p)\<close>. \<^verbatim>\<open>!p\<close> is \<^verbatim>\<open>!(bool)cb_\<close>.\<close>

definition copy_ctor :: "('a, 'v) env \<Rightarrow> var \<Rightarrow> var \<Rightarrow> 'v state \<Rightarrow> 'v outcome" where
  "copy_ctor E this p s =
     (case vars s p of
        None \<Rightarrow> (Inl UndefinedBehaviour, s)
      | Some P \<Rightarrow>
          (case m_cb P of
             None \<Rightarrow> (Inr (), s\<lparr>vars := (vars s)(this \<mapsto> null_indirect)\<rparr>)
           | Some b \<Rightarrow>
               (case clone E b (heap s) of
                  (Inl e, h1) \<Rightarrow> (Inl e, s\<lparr>heap := h1\<rparr>)
                | (Inr tmp_cb, h1) \<Rightarrow>
                    (case ptr tmp_cb of
                       Inl e \<Rightarrow> (Inl e, s\<lparr>heap := h1\<rparr>)
                     | Inr q \<Rightarrow>
                         (Inr (),
                          \<lparr>heap = h1,
                           vars = (vars s)(this \<mapsto> \<lparr>m_ptr = q, m_cb = Some tmp_cb\<rparr>)\<rparr>)))))"

text \<open>
  \<^verbatim>\<open>indirect(const indirect<U>& p)\<close>: the local \<^verbatim>\<open>tmp\<close> is a variable of its own,
  destroyed when the constructor is left, normally or by an exception.
\<close>

definition copy_ctor_conv ::
  "('a, 'v) env \<Rightarrow> var \<Rightarrow> var \<Rightarrow> var \<Rightarrow> 'v state \<Rightarrow> 'v outcome" where
  "copy_ctor_conv E this p tmp s =
     (case copy_ctor E tmp p s of
        (Inl e, s1) \<Rightarrow> (Inl e, s1)
      | (Inr _, s1) \<Rightarrow>
          (case vars s1 tmp of
             None \<Rightarrow> (Inl UndefinedBehaviour, s1)
           | Some t \<Rightarrow>
               (case make_delegating_control_block (m_cb t) (heap s1) of
                  (Inl e, h2) \<Rightarrow> (Inl e, dtor tmp (s1\<lparr>heap := h2\<rparr>))
                | (Inr d, h2) \<Rightarrow>
                    (Inr (),
                     dtor tmp
                       \<lparr>heap = h2,
                        vars = (vars s1)(this \<mapsto> \<lparr>m_ptr = m_ptr t, m_cb = Some d\<rparr>,
                                         tmp \<mapsto> t\<lparr>m_cb := None\<rparr>)\<rparr>))))"

text \<open>\<^verbatim>\<open>indirect(indirect&& p) noexcept\<close>. A moved-from \<^verbatim>\<open>unique_ptr\<close> is null.\<close>

definition move_ctor :: "var \<Rightarrow> var \<Rightarrow> 'v state \<Rightarrow> 'v outcome" where
  "move_ctor this p s =
     (case vars s p of
        None \<Rightarrow> (Inl UndefinedBehaviour, s)
      | Some P \<Rightarrow>
          (Inr (),
           s\<lparr>vars := (vars s)(this \<mapsto> \<lparr>m_ptr = m_ptr P, m_cb = m_cb P\<rparr>,
                               p \<mapsto> \<lparr>m_ptr = None, m_cb = None\<rparr>)\<rparr>))"

text \<open>
  \<^verbatim>\<open>indirect(indirect<U>&& p) noexcept\<close>: \<^verbatim>\<open>make_unique\<close> may throw, and an
  exception that leaves a \<^verbatim>\<open>noexcept\<close> function ends the program.
\<close>

definition move_ctor_conv :: "var \<Rightarrow> var \<Rightarrow> 'v state \<Rightarrow> 'v outcome" where
  "move_ctor_conv this p s =
     (case vars s p of
        None \<Rightarrow> (Inl UndefinedBehaviour, s)
      | Some P \<Rightarrow>
          (case make_delegating_control_block (m_cb P) (heap s) of
             (Inl e, h1) \<Rightarrow> (Inl Terminate, s\<lparr>heap := h1\<rparr>)
           | (Inr d, h1) \<Rightarrow>
               (Inr (),
                \<lparr>heap = h1,
                 vars = (vars s)(this \<mapsto> \<lparr>m_ptr = m_ptr P, m_cb = Some d\<rparr>,
                                  p \<mapsto> \<lparr>m_ptr = None, m_cb = None\<rparr>)\<rparr>)))"

text \<open>
  \<^verbatim>\<open>indirect& operator=(const indirect& p)\<close>. Assigning to \<^verbatim>\<open>cb_\<close> releases the block
  it held.
\<close>

definition copy_assign :: "('a, 'v) env \<Rightarrow> var \<Rightarrow> var \<Rightarrow> 'v state \<Rightarrow> 'v outcome" where
  "copy_assign E this p s =
     (if p = this then (Inr (), s)
      else
        (case (vars s this, vars s p) of
           (Some C, Some P) \<Rightarrow>
             (case m_cb P of
                None \<Rightarrow>
                  (Inr (),
                   \<lparr>heap = reset (m_cb C) (heap s),
                    vars = (vars s)(this \<mapsto> \<lparr>m_ptr = None, m_cb = None\<rparr>)\<rparr>)
              | Some b \<Rightarrow>
                  (case clone E b (heap s) of
                     (Inl e, h1) \<Rightarrow> (Inl e, s\<lparr>heap := h1\<rparr>)
                   | (Inr tmp_cb, h1) \<Rightarrow>
                       (case ptr tmp_cb of
                          Inl e \<Rightarrow> (Inl e, s\<lparr>heap := h1\<rparr>)
                        | Inr q \<Rightarrow>
                            (Inr (),
                             \<lparr>heap = reset (m_cb C) h1,
                              vars = (vars s)(this \<mapsto> \<lparr>m_ptr = q, m_cb = Some tmp_cb\<rparr>)\<rparr>))))
         | _ \<Rightarrow> (Inl UndefinedBehaviour, s)))"


text \<open>
  \<^verbatim>\<open>indirect& operator=(indirect<U>&& p) noexcept\<close>. The two containers have
  different types, so there is no identity test; the new block is made first and
  the old one released by the assignment to \<^verbatim>\<open>cb_\<close>.
\<close>

definition move_assign_conv :: "var \<Rightarrow> var \<Rightarrow> 'v state \<Rightarrow> 'v outcome" where
  "move_assign_conv this p s =
     (case (vars s this, vars s p) of
        (Some C, Some P) \<Rightarrow>
          (case make_delegating_control_block (m_cb P) (heap s) of
             (Inl e, h1) \<Rightarrow> (Inl Terminate, s\<lparr>heap := h1\<rparr>)
           | (Inr d, h1) \<Rightarrow>
               (Inr (),
                \<lparr>heap = reset (m_cb C) h1,
                 vars = (vars s)(this \<mapsto> \<lparr>m_ptr = m_ptr P, m_cb = Some d\<rparr>,
                                  p \<mapsto> \<lparr>m_ptr = None, m_cb = None\<rparr>)\<rparr>))
      | _ \<Rightarrow> (Inl UndefinedBehaviour, s))"

text \<open>
  \<^verbatim>\<open>indirect& operator=(const indirect<U>& p)\<close>: \<^verbatim>\<open>indirect<U> tmp(p);
  *this = std::move(tmp);\<close>
\<close>

definition copy_assign_conv ::
  "('a, 'v) env \<Rightarrow> var \<Rightarrow> var \<Rightarrow> var \<Rightarrow> 'v state \<Rightarrow> 'v outcome" where
  "copy_assign_conv E this p tmp s =
     (case copy_ctor E tmp p s of
        (Inl e, s1) \<Rightarrow> (Inl e, s1)
      | (Inr _, s1) \<Rightarrow>
          (case move_assign_conv this tmp s1 of
             (r, s2) \<Rightarrow> (r, dtor tmp s2)))"

text \<open>\<^verbatim>\<open>void swap(indirect& p) noexcept\<close> and the non-member \<^verbatim>\<open>swap\<close>.\<close>

definition swap_member :: "var \<Rightarrow> var \<Rightarrow> 'v state \<Rightarrow> 'v outcome" where
  "swap_member this p s =
     (case (vars s this, vars s p) of
        (Some C, Some P) \<Rightarrow>
          (Inr (),
           s\<lparr>vars := (vars s)(this \<mapsto> \<lparr>m_ptr = m_ptr P, m_cb = m_cb P\<rparr>,
                               p \<mapsto> \<lparr>m_ptr = m_ptr C, m_cb = m_cb C\<rparr>)\<rparr>)
      | _ \<Rightarrow> (Inl UndefinedBehaviour, s))"

definition swap_indirect :: "var \<Rightarrow> var \<Rightarrow> 'v state \<Rightarrow> 'v outcome" where
  "swap_indirect t u s = swap_member t u s"

text \<open>
  \<^verbatim>\<open>void emplace(Ts&&... ts)\<close>: the new block is complete before \<^verbatim>\<open>ptr_\<close> and
  \<^verbatim>\<open>cb_\<close> are written.
\<close>

definition emplace :: "('a, 'v) env \<Rightarrow> type_id \<Rightarrow> 'a \<Rightarrow> var \<Rightarrow> 'v state \<Rightarrow> 'v outcome" where
  "emplace E T ts this s =
     (case vars s this of
        None \<Rightarrow> (Inl UndefinedBehaviour, s)
      | Some c \<Rightarrow>
          (case make_direct_control_block E T ts (heap s) of
             (Inl e, h1) \<Rightarrow> (Inl e, s\<lparr>heap := h1\<rparr>)
           | (Inr p, h1) \<Rightarrow>
               (case ptr p of
                  Inl e \<Rightarrow> (Inl e, s\<lparr>heap := h1\<rparr>)
                | Inr q \<Rightarrow>
                    (Inr (),
                     \<lparr>heap = reset (m_cb c) h1,
                      vars = (vars s)(this \<mapsto> \<lparr>m_ptr = q, m_cb = Some p\<rparr>)\<rparr>))))"

text \<open>\<^verbatim>\<open>void clear()\<close>.\<close>

definition clear :: "var \<Rightarrow> 'v state \<Rightarrow> 'v outcome" where
  "clear this s =
     (case vars s this of
        None \<Rightarrow> (Inl UndefinedBehaviour, s)
      | Some c \<Rightarrow>
          (Inr (),
           \<lparr>heap = reset (m_cb c) (heap s),
            vars = (vars s)(this \<mapsto> \<lparr>m_ptr = None, m_cb = None\<rparr>)\<rparr>))"

section \<open>Accessors\<close>

text \<open>
  The accessors read the container they are called on. \<^verbatim>\<open>operator bool\<close> and
  \<^verbatim>\<open>empty\<close> test \<^verbatim>\<open>cb_\<close>, not \<^verbatim>\<open>ptr_\<close>.
\<close>

definition operator_bool :: "'v indirect \<Rightarrow> bool" where
  "operator_bool c = (m_cb c \<noteq> None)"

definition empty_indirect :: "'v indirect \<Rightarrow> bool" where
  "empty_indirect c = (\<not> (m_cb c \<noteq> None))"

text \<open>
  \<^verbatim>\<open>const T* operator->() const\<close> is the one accessor with an \<^verbatim>\<open>assert(ptr_)\<close>;
  \<^verbatim>\<open>T* operator->()\<close> returns \<^verbatim>\<open>ptr_\<close> as it is.
\<close>

definition arrow_const :: "('a, 'v) env \<Rightarrow> 'v indirect \<Rightarrow> error + addr option" where
  "arrow_const E c =
     (if debug E \<and> m_ptr c = None then Inl AssertionFailure else Inr (m_ptr c))"

definition arrow_mut :: "'v indirect \<Rightarrow> error + addr option" where
  "arrow_mut c = Inr (m_ptr c)"

text \<open>
  \<^verbatim>\<open>return *ptr_;\<close> in \<^verbatim>\<open>value\<close> and \<^verbatim>\<open>operator*\<close>, const and non-const: the
  result is the object referred to; a null or dangling \<^verbatim>\<open>ptr_\<close> is undefined
  behaviour, in every build.
\<close>

definition deref_ptr :: "addr option \<Rightarrow> 'v heap \<Rightarrow> error + 'v obj" where
  "deref_ptr q h =
     (case q of
        None \<Rightarrow> Inl UndefinedBehaviour
      | Some a \<Rightarrow> (case obj_at h a of None \<Rightarrow> Inl UndefinedBehaviour | Some ob \<Rightarrow> Inr ob))"

definition value_const :: "'v indirect \<Rightarrow> 'v heap \<Rightarrow> error + 'v obj" where
  "value_const c h = deref_ptr (m_ptr c) h"

definition star_const :: "'v indirect \<Rightarrow> 'v heap \<Rightarrow> error + 'v obj" where
  "star_const c h = deref_ptr (m_ptr c) h"

definition value_mut :: "'v indirect \<Rightarrow> 'v heap \<Rightarrow> error + 'v obj" where
  "value_mut c h = deref_ptr (m_ptr c) h"

definition star_mut :: "'v indirect \<Rightarrow> 'v heap \<Rightarrow> error + 'v obj" where
  "star_mut c h = deref_ptr (m_ptr c) h"

section \<open>The factory\<close>

text \<open>
  \<^verbatim>\<open>make_indirect<T>(ts...)\<close>: the local \<^verbatim>\<open>p\<close> is default-constructed, given its
  block and pointer, and moved into the returned object \<open>result\<close>; then \<^verbatim>\<open>p\<close> is
  destroyed.
\<close>

definition make_indirect ::
  "('a, 'v) env \<Rightarrow> type_id \<Rightarrow> 'a \<Rightarrow> var \<Rightarrow> var \<Rightarrow> 'v state \<Rightarrow> 'v outcome" where
  "make_indirect E T ts result p s =
     (case default_ctor p s of
        (_, s0) \<Rightarrow>
          (case make_direct_control_block E T ts (heap s0) of
             (Inl e, h1) \<Rightarrow> (Inl e, dtor p (s0\<lparr>heap := h1\<rparr>))
           | (Inr b, h1) \<Rightarrow>
               (case ptr b of
                  Inl e \<Rightarrow>
                    (Inl e,
                     dtor p \<lparr>heap = h1,
                             vars = (vars s0)(p \<mapsto> \<lparr>m_ptr = None, m_cb = Some b\<rparr>)\<rparr>)
                | Inr q \<Rightarrow>
                    (case move_ctor result p
                            \<lparr>heap = h1,
                             vars = (vars s0)(p \<mapsto> \<lparr>m_ptr = q, m_cb = Some b\<rparr>)\<rparr> of
                       (r, s2) \<Rightarrow> (r, dtor p s2)))))"

section \<open>Specification predicates\<close>

text \<open>
  The invariant of the data model: \<^verbatim>\<open>ptr_\<close> is null exactly when \<^verbatim>\<open>cb_\<close> is, and a
  non-empty container caches the pointer its block reports.
\<close>

definition invariant :: "'v indirect \<Rightarrow> bool" where
  "invariant c =
     (case m_cb c of
        None \<Rightarrow> m_ptr c = None
      | Some b \<Rightarrow> m_ptr c \<noteq> None \<and> ptr b = Inr (m_ptr c))"

text \<open>
  The contract of a copy strategy, as far as the dynamic type goes: run on an object
  of dynamic type \<open>D\<close>, a copier that returns (rather than throws) returns a non-null
  pointer to storage that was free before the call and now holds an object of dynamic
  type \<open>D\<close>. \<open>copies_as D b\<close> asks this of the copier a block will run; a
  \<^verbatim>\<open>direct_control_block\<close> copies its member with the member's own type and needs no
  assumption.
\<close>

definition copier_keeps_type :: "type_id \<Rightarrow> 'v copier \<Rightarrow> bool" where
  "copier_keeps_type D c \<longleftrightarrow>
     (\<forall>t h r h'. dyn_type t = D \<longrightarrow> c t h = (Inr r, h') \<longrightarrow>
        (\<exists>u t'. r = Some u \<and> mem h u = None \<and> obj_at h' u = Some t' \<and> dyn_type t' = D))"

fun copies_as :: "type_id \<Rightarrow> 'v cb \<Rightarrow> bool" where
  "copies_as D (PointerCB a p c d) = copier_keeps_type D c"
| "copies_as D (DirectCB a) = True"
| "copies_as D (DelegatingCB a None) = True"
| "copies_as D (DelegatingCB a (Some b)) = copies_as D b"

text \<open>
  The full contract of a copy strategy: run on an object of dynamic type \<open>D\<close>, a
  copier that returns has put an equal object into storage that was free before, and
  has left every cell that was in use as it was. For a \<^verbatim>\<open>direct_control_block\<close> the
  strategy is the copy constructor of the payload type.
\<close>

definition copier_exact :: "type_id \<Rightarrow> 'v copier \<Rightarrow> bool" where
  "copier_exact D c \<longleftrightarrow>
     (\<forall>t h r h'. dyn_type t = D \<longrightarrow> c t h = (Inr r, h') \<longrightarrow>
        (\<exists>u. r = Some u \<and> mem h u = None \<and> obj_at h' u = Some t \<and>
             (\<forall>x. mem h x \<noteq> None \<longrightarrow> mem h' x = mem h x)))"

fun copies_exactly :: "('a, 'v) env \<Rightarrow> type_id \<Rightarrow> 'v cb \<Rightarrow> bool" where
  "copies_exactly E D (PointerCB a p c d) = copier_exact D c"
| "copies_exactly E D (DirectCB a) =
     (\<forall>t v. dyn_type t = D \<longrightarrow> copy_construct E D t = Inr v \<longrightarrow> v = val t)"
| "copies_exactly E D (DelegatingCB a None) = True"
| "copies_exactly E D (DelegatingCB a (Some b)) = copies_exactly E D b"

text \<open>
  \<open>produced E b t h u t'\<close>: the copy strategy of the block \<open>b\<close>, run on the object
  \<open>t\<close> in the free store \<open>h\<close>, made the object \<open>t'\<close> at the address \<open>u\<close>. For a
  pointer-adopting block the strategy is its copier \<^verbatim>\<open>c_\<close>; for a block with inline
  storage it is newly obtained storage and the copy constructor of the object's own
  type; a delegating block has the strategy of its delegate.
\<close>

fun produced :: "('a, 'v) env \<Rightarrow> 'v cb \<Rightarrow> 'v obj \<Rightarrow> 'v heap \<Rightarrow> addr \<Rightarrow> 'v obj \<Rightarrow> bool" where
  "produced E (PointerCB a p c d) t h u t' =
     (\<exists>h1. c t h = (Inr (Some u), h1) \<and> obj_at h1 u = Some t')"
| "produced E (DirectCB a) t h u t' =
     ((\<exists>h1. alloc h = Some (u, h1)) \<and> dyn_type t' = dyn_type t \<and>
      copy_construct E (dyn_type t) t = Inr (val t'))"
| "produced E (DelegatingCB a None) t h u t' = False"
| "produced E (DelegatingCB a (Some b)) t h u t' = produced E b t h u t'"

text \<open>
  \<open>owns s x b u t\<close>: the variable \<open>x\<close> is a container with the block \<open>b\<close> that caches
  the pointer \<open>u\<close> the block reports, and the object at \<open>u\<close> is \<open>t\<close>.
\<close>

definition owns :: "'v state \<Rightarrow> var \<Rightarrow> 'v cb \<Rightarrow> addr \<Rightarrow> 'v obj \<Rightarrow> bool" where
  "owns s x b u t \<longleftrightarrow>
     (\<exists>X. vars s x = Some X \<and> m_cb X = Some b \<and> m_ptr X = Some u \<and>
        ptr b = Inr (Some u) \<and> obj_at (heap s) u = Some t)"

text \<open>
  The cells a block owns, and a leaked cell: one that is in use although no block of
  any container owns it.
\<close>

fun cells_of :: "'v cb \<Rightarrow> addr set" where
  "cells_of (PointerCB a p c d) = insert a (set_option p)"
| "cells_of (DirectCB a) = {a}"
| "cells_of (DelegatingCB a None) = {a}"
| "cells_of (DelegatingCB a (Some b)) = insert a (cells_of b)"

definition leaked :: "'v state \<Rightarrow> addr \<Rightarrow> bool" where
  "leaked s a \<longleftrightarrow>
     mem (heap s) a \<noteq> None \<and>
     \<not> (\<exists>x X b. vars s x = Some X \<and> m_cb X = Some b \<and> a \<in> cells_of b)"

section \<open>Concrete programs and states\<close>

text \<open>
  Integer-like payload types: constructed from an integer they have that value, and
  their copy constructors copy the value. \<^verbatim>\<open>Base\<close> and \<^verbatim>\<open>Derived\<close> are polymorphic,
  every other type (\<^verbatim>\<open>NBase\<close> and \<^verbatim>\<open>NDerived\<close> below) is not. Assertions are
  compiled in.
\<close>

definition int_env :: "(int, int) env" where
  "int_env =
     \<lparr>debug = True, polymorphic = (\<lambda>T. T = ''Base'' \<or> T = ''Derived''),
      construct = (\<lambda>T n. Inr n), copy_construct = (\<lambda>T t. Inr (val t))\<rparr>"

text \<open>A payload type whose constructors throw.\<close>

definition throwing_env :: "(int, int) env" where
  "throwing_env =
     \<lparr>debug = True, polymorphic = (\<lambda>T. False), construct = (\<lambda>T n. Inl UserException),
      copy_construct = (\<lambda>T t. Inl UserException)\<rparr>"

definition no_heap :: "int heap" where
  "no_heap = \<lparr>mem = Map.empty, avail = []\<rparr>"

text \<open>No container yet; two addresses can be handed out.\<close>

definition fresh_state :: "int state" where
  "fresh_state = \<lparr>heap = \<lparr>mem = Map.empty, avail = [0, 1]\<rparr>, vars = Map.empty\<rparr>"

text \<open>Variable 1 is a default-constructed, empty \<^verbatim>\<open>indirect<Derived>\<close>.\<close>

definition empty_source_state :: "int state" where
  "empty_source_state =
     \<lparr>heap = \<lparr>mem = Map.empty, avail = [0, 1, 2, 3]\<rparr>, vars = [1 \<mapsto> null_indirect]\<rparr>"

text \<open>A \<^verbatim>\<open>Derived\<close> object made by \<^verbatim>\<open>new Derived(5)\<close>, not owned by any container.\<close>

definition unowned_state :: "int state" where
  "unowned_state =
     \<lparr>heap = \<lparr>mem = [0 \<mapsto> Object \<lparr>dyn_type = ''Derived'', val = 5\<rparr>], avail = [1]\<rparr>,
      vars = Map.empty\<rparr>"

text \<open>
  An \<^verbatim>\<open>NDerived\<close> object made by \<^verbatim>\<open>new NDerived(5)\<close>, where \<^verbatim>\<open>NDerived\<close> derives
  from \<^verbatim>\<open>NBase\<close> and neither has a virtual function.
\<close>

definition plain_state :: "int state" where
  "plain_state =
     \<lparr>heap = \<lparr>mem = [0 \<mapsto> Object \<lparr>dyn_type = ''NDerived'', val = 5\<rparr>], avail = [1]\<rparr>,
      vars = Map.empty\<rparr>"

text \<open>
  Variable 10 is an \<^verbatim>\<open>indirect<Derived>\<close> that has adopted that object with the
  default copier and deleter (its block is at address 1); variable 11 is empty.
\<close>

definition adopted_state :: "int state" where
  "adopted_state =
     \<lparr>heap = \<lparr>mem = [0 \<mapsto> Object \<lparr>dyn_type = ''Derived'', val = 5\<rparr>, 1 \<mapsto> Block],
              avail = [2, 3, 4, 5, 6, 7]\<rparr>,
      vars = [10 \<mapsto> \<lparr>m_ptr = Some 0,
                      m_cb = Some (PointerCB 1 (Some 0) (default_copier int_env ''Derived'')
                                     default_deleter)\<rparr>,
              11 \<mapsto> null_indirect]\<rparr>"

text \<open>The same, with storage left for one more allocation only.\<close>

definition scarce_state :: "int state" where
  "scarce_state = adopted_state\<lparr>heap := (heap adopted_state)\<lparr>avail := [2]\<rparr>\<rparr>"

section \<open>The free store\<close>

lemma alloc_fresh: "alloc h = Some (a, h1) \<Longrightarrow> mem h a = None \<and> mem h1 = mem h"
  by (auto simp: alloc_def dropWhile_eq_Cons_conv split: list.splits)

lemma obj_at_live: "obj_at h x = Some t \<Longrightarrow> mem h x \<noteq> None"
  by (auto simp: obj_at_def split: option.splits)

lemma mem_alloc_store:
  "alloc h = Some (a, h1) \<Longrightarrow> mem (store a c h1) = (mem h)(a \<mapsto> c)"
  by (simp add: alloc_fresh store_def)

lemma obj_at_new:
  assumes "alloc h = Some (a, h1)"
  shows "obj_at (store a (Object t) h1) a = Some t"
    and "obj_at (store a (DirectBlock t) h1) a = Some t"
  by (simp_all add: obj_at_def store_def)

lemma obj_at_kept:
  assumes "alloc h = Some (a, h1)" and "obj_at h x = Some t"
  shows "obj_at (store a c h1) x = Some t"
proof -
  from assms(2) have "mem h x \<noteq> None" by (rule obj_at_live)
  with alloc_fresh [OF assms(1)] have "a \<noteq> x" by auto
  then have "mem (store a c h1) x = mem h x"
    by (simp add: mem_alloc_store [OF assms(1)])
  with assms(2) show ?thesis by (simp add: obj_at_def)
qed

lemma mem_alloc_free:
  assumes "alloc h = Some (a, h1)"
  shows "mem (free a h1) = mem h"
proof -
  from alloc_fresh [OF assms] have "mem h a = None" and "mem h1 = mem h" by simp_all
  then show ?thesis by (simp add: free_def fun_upd_idem)
qed

lemma indirect_eta: "\<lparr>m_ptr = m_ptr X, m_cb = m_cb X\<rparr> = (X :: 'v indirect)"
  by (cases X) simp

section \<open>The invariant and the converting operations\<close>

text \<open>
  The same-type copy constructor tests \<^verbatim>\<open>!p\<close> and returns an empty container. The
  converting copy constructor has no such test: from an empty source it wraps the
  null \<^verbatim>\<open>tmp.cb_\<close> in a new delegating block, whatever the state and the names.
\<close>

lemma copy_ctor_conv_of_empty:
  assumes "vars s p = Some P" and "m_cb P = None" and "tmp \<noteq> this"
    and "alloc (heap s) = Some (a, h1)"
  shows "\<exists>s'. copy_ctor_conv E this p tmp s = (Inr (), s') \<and>
           vars s' this = Some \<lparr>m_ptr = None, m_cb = Some (DelegatingCB a None)\<rparr>"
  using assms
  by (simp add: copy_ctor_conv_def copy_ctor_def make_delegating_control_block_def
      null_indirect_def dtor_def reset_def)

text \<open>
  The converting move constructor and the converting move assignment do the same with
  the null \<^verbatim>\<open>p.cb_\<close> of an empty source.
\<close>

lemma move_ctor_conv_of_empty:
  assumes "vars s p = Some P" and "m_ptr P = None" and "m_cb P = None" and "p \<noteq> this"
    and "alloc (heap s) = Some (a, h1)"
  shows "\<exists>s'. move_ctor_conv this p s = (Inr (), s') \<and>
           vars s' this = Some \<lparr>m_ptr = None, m_cb = Some (DelegatingCB a None)\<rparr>"
  using assms by (simp add: move_ctor_conv_def make_delegating_control_block_def)

lemma move_assign_conv_of_empty:
  assumes "vars s this = Some C" and "vars s p = Some P" and "m_ptr P = None"
    and "m_cb P = None" and "p \<noteq> this" and "alloc (heap s) = Some (a, h1)"
  shows "\<exists>s'. move_assign_conv this p s = (Inr (), s') \<and>
           vars s' this = Some \<lparr>m_ptr = None, m_cb = Some (DelegatingCB a None)\<rparr>"
  using assms by (simp add: move_assign_conv_def make_delegating_control_block_def)

text \<open>
  C1. After every public operation the cached pointer would be null exactly when the
  control block is null, and equal to the pointer the block reports. The code breaks
  this: copy-converting the empty container of variable 1 into variable 2 returns
  normally and leaves variable 2 with a null \<^verbatim>\<open>ptr_\<close> and a non-null \<^verbatim>\<open>cb_\<close>, a
  delegating block whose delegate is null. The container reports itself non-empty,
  and asking its block for the pointer dereferences the null delegate.
\<close>

theorem converting_copy_of_empty_breaks_invariant:
  "fst (copy_ctor_conv int_env 2 1 3 empty_source_state) = Inr () \<and>
   vars (snd (copy_ctor_conv int_env 2 1 3 empty_source_state)) 2 =
     Some \<lparr>m_ptr = None, m_cb = Some (DelegatingCB 0 None)\<rparr> \<and>
   \<not> invariant \<lparr>m_ptr = None, m_cb = Some (DelegatingCB 0 None) :: int cb option\<rparr> \<and>
   operator_bool \<lparr>m_ptr = None, m_cb = Some (DelegatingCB 0 None) :: int cb option\<rparr> \<and>
   ptr (DelegatingCB 0 None :: int cb) = Inl UndefinedBehaviour"
  by (simp add: copy_ctor_conv_def copy_ctor_def empty_source_state_def null_indirect_def
      make_delegating_control_block_def alloc_def dtor_def store_def reset_def invariant_def
      operator_bool_def)

section \<open>Cloning\<close>

text \<open>The default copier keeps its side of both contracts.\<close>

lemma default_copier_keeps_type: "copier_keeps_type D (default_copier E D)"
  unfolding copier_keeps_type_def
proof (intro allI impI)
  fix t h r h'
  assume c: "default_copier E D t h = (Inr r, h')"
  then obtain a h1 v where a: "alloc h = Some (a, h1)" and r: "r = Some a"
    and h': "h' = store a (Object \<lparr>dyn_type = D, val = v\<rparr>) h1"
    by (auto simp: default_copier_def split: option.splits sum.splits)
  from alloc_fresh [OF a] have "mem h a = None" by simp
  then show "\<exists>u t'. r = Some u \<and> mem h u = None \<and> obj_at h' u = Some t' \<and> dyn_type t' = D"
    using r h' obj_at_new(1) [OF a] by auto
qed

text \<open>
  It reproduces the object when the copy constructor of the type reproduces the value.
\<close>

lemma default_copier_exact:
  assumes "\<And>t v. dyn_type t = D \<Longrightarrow> copy_construct E D t = Inr v \<Longrightarrow> v = val t"
  shows "copier_exact D (default_copier E D)"
  unfolding copier_exact_def
proof (intro allI impI)
  fix t h r h'
  assume D: "dyn_type t = D" and c: "default_copier E D t h = (Inr r, h')"
  from c obtain a h1 v where a: "alloc h = Some (a, h1)" and v: "copy_construct E D t = Inr v"
    and r: "r = Some a" and h': "h' = store a (Object \<lparr>dyn_type = D, val = v\<rparr>) h1"
    by (auto simp: default_copier_def split: option.splits sum.splits)
  from assms [OF D v] D have t: "\<lparr>dyn_type = D, val = v\<rparr> = t" by simp
  from alloc_fresh [OF a] have f: "mem h a = None" "mem h1 = mem h" by simp_all
  show "\<exists>u. r = Some u \<and> mem h u = None \<and> obj_at h' u = Some t \<and>
             (\<forall>x. mem h x \<noteq> None \<longrightarrow> mem h' x = mem h x)"
    using r f h' t obj_at_new(1) [OF a] by (auto simp: store_def)
qed

text \<open>
  A clone of a block that owns an object \<open>t\<close> of dynamic type \<open>D\<close> owns an object
  that the block's copy strategy produced from \<open>t\<close>, of dynamic type \<open>D\<close>, in
  storage that was free before; and the clone has the copy strategy of the original.
  By induction along \<^verbatim>\<open>clone\<close>: a delegating block only forwards.
\<close>

lemma clone_produces:
  "clone E b h = (Inr b', h') \<Longrightarrow> copies_as D b \<Longrightarrow> ptr b = Inr q \<Longrightarrow>
   deref_ptr q h = Inr t \<Longrightarrow> dyn_type t = D \<Longrightarrow>
   \<exists>u t'. ptr b' = Inr (Some u) \<and> mem h u = None \<and> produced E b t h u t' \<and>
     obj_at h' u = Some t' \<and> dyn_type t' = D \<and> copies_as D b' \<and>
     produced E b' = produced E b"
proof (induction E b h arbitrary: b' h' rule: clone.induct)
  case (1 E a p c d h)
  from "1.prems"(1) obtain u t0 u' h1 a' h2 where p: "p = Some u" and t0: "obj_at h u = Some t0"
    and c: "c t0 h = (Inr u', h1)" and al: "alloc h1 = Some (a', h2)"
    and b': "b' = PointerCB a' u' c d" and h': "h' = store a' Block h2"
    by (auto split: option.splits sum.splits prod.splits)
  from "1.prems"(3,4) p t0 have tt: "t0 = t" by (auto simp: deref_ptr_def)
  with c "1.prems"(2,5) obtain x t' where u': "u' = Some x" and fr: "mem h x = None"
    and x: "obj_at h1 x = Some t'" and D: "dyn_type t' = D"
    unfolding copies_as.simps copier_keeps_type_def by blast
  from obj_at_kept [OF al x] h' have o: "obj_at h' x = Some t'" by simp
  have pr: "produced E (PointerCB a p c d) t h x t'"
    using c tt u' x by auto
  have eq: "produced E b' = produced E (PointerCB a p c d)"
    unfolding b' by (intro ext) simp
  show ?case using b' u' fr pr o D eq "1.prems"(2) by simp
next
  case (2 E a h)
  from "2.prems"(1) obtain t0 a' h1 v where m: "mem h a = Some (DirectBlock t0)"
    and al: "alloc h = Some (a', h1)" and v: "copy_construct E (dyn_type t0) t0 = Inr v"
    and b': "b' = DirectCB a'"
    and h': "h' = store a' (DirectBlock \<lparr>dyn_type = dyn_type t0, val = v\<rparr>) h1"
    by (auto split: option.splits sum.splits prod.splits cell.splits)
  from "2.prems"(3,4) m have tt: "t0 = t" by (auto simp: deref_ptr_def obj_at_def)
  let ?t' = "\<lparr>dyn_type = dyn_type t, val = v\<rparr>"
  from alloc_fresh [OF al] have fr: "mem h a' = None" by simp
  have pr: "produced E (DirectCB a) t h a' ?t'" using al v tt by simp
  have o: "obj_at h' a' = Some ?t'" using h' tt obj_at_new(2) [OF al] by simp
  have eq: "produced E b' = produced E (DirectCB a)"
    unfolding b' by (intro ext) simp
  show ?case using b' fr pr o eq "2.prems"(5) by auto
next
  case (3 E a h)
  then show ?case by simp
next
  case (4 E a b h)
  from "4.prems"(1) obtain b1 h1 a' h2 where cl: "clone E b h = (Inr b1, h1)"
    and al: "alloc h1 = Some (a', h2)" and b': "b' = DelegatingCB a' (Some b1)"
    and h': "h' = store a' Block h2"
    by (auto split: option.splits sum.splits prod.splits)
  from "4.IH" [OF cl] "4.prems"(2-5) obtain x t' where q': "ptr b1 = Inr (Some x)"
    and fr: "mem h x = None" and pr: "produced E b t h x t'"
    and x: "obj_at h1 x = Some t'" and D: "dyn_type t' = D" and ca: "copies_as D b1"
    and eq1: "produced E b1 = produced E b"
    by auto
  from obj_at_kept [OF al x] h' have o: "obj_at h' x = Some t'" by simp
  have eq: "produced E b' = produced E (DelegatingCB a (Some b))"
    unfolding b' using eq1 by (intro ext) simp
  show ?case using b' q' fr pr o D ca eq by simp
qed

text \<open>
  Under the full contract the clone owns an equal object in storage that was free
  before the call, and the cells that were in use are untouched.
\<close>

lemma clone_exact:
  "clone E b h = (Inr b', h') \<Longrightarrow> copies_exactly E D b \<Longrightarrow> ptr b = Inr q \<Longrightarrow>
   deref_ptr q h = Inr t \<Longrightarrow> dyn_type t = D \<Longrightarrow>
   \<exists>x. ptr b' = Inr (Some x) \<and> mem h x = None \<and> obj_at h' x = Some t \<and>
       (\<forall>y. mem h y \<noteq> None \<longrightarrow> mem h' y = mem h y)"
proof (induction E b h arbitrary: b' h' rule: clone.induct)
  case (1 E a p c d h)
  from "1.prems"(1) obtain u t0 u' h1 a' h2 where p: "p = Some u" and t0: "obj_at h u = Some t0"
    and c: "c t0 h = (Inr u', h1)" and al: "alloc h1 = Some (a', h2)"
    and b': "b' = PointerCB a' u' c d" and h': "h' = store a' Block h2"
    by (auto split: option.splits sum.splits prod.splits)
  from "1.prems"(3,4) p t0 have "t0 = t" by (auto simp: deref_ptr_def)
  with c "1.prems"(2,5) obtain x where u': "u' = Some x" and fr: "mem h x = None"
    and x: "obj_at h1 x = Some t" and keep: "\<forall>y. mem h y \<noteq> None \<longrightarrow> mem h1 y = mem h y"
    unfolding copies_exactly.simps copier_exact_def by blast
  from obj_at_kept [OF al x] h' have o: "obj_at h' x = Some t" by simp
  have "\<forall>y. mem h y \<noteq> None \<longrightarrow> mem h' y = mem h y"
  proof (intro allI impI)
    fix y assume y: "mem h y \<noteq> None"
    with keep have k: "mem h1 y = mem h y" by simp
    with y alloc_fresh [OF al] have "a' \<noteq> y" by auto
    then show "mem h' y = mem h y" using k h' by (simp add: mem_alloc_store [OF al])
  qed
  then show ?case using b' u' fr o by simp
next
  case (2 E a h)
  from "2.prems"(1) obtain t0 a' h1 v where m: "mem h a = Some (DirectBlock t0)"
    and al: "alloc h = Some (a', h1)" and v: "copy_construct E (dyn_type t0) t0 = Inr v"
    and b': "b' = DirectCB a'"
    and h': "h' = store a' (DirectBlock \<lparr>dyn_type = dyn_type t0, val = v\<rparr>) h1"
    by (auto split: option.splits sum.splits prod.splits cell.splits)
  from "2.prems"(3,4) m have t0: "t0 = t" by (auto simp: deref_ptr_def obj_at_def)
  with v "2.prems"(2,5) have "v = val t" by simp
  with t0 have eq: "\<lparr>dyn_type = dyn_type t0, val = v\<rparr> = t" by simp
  from alloc_fresh [OF al] have fr: "mem h a' = None" by simp
  have "\<forall>y. mem h y \<noteq> None \<longrightarrow> mem h' y = mem h y"
    using fr h' by (auto simp: mem_alloc_store [OF al])
  then show ?case using b' fr h' eq obj_at_new(2) [OF al, of t] by simp
next
  case (3 E a h)
  then show ?case by simp
next
  case (4 E a b h)
  from "4.prems"(1) obtain b1 h1 a' h2 where cl: "clone E b h = (Inr b1, h1)"
    and al: "alloc h1 = Some (a', h2)" and b': "b' = DelegatingCB a' (Some b1)"
    and h': "h' = store a' Block h2"
    by (auto split: option.splits sum.splits prod.splits)
  from "4.IH" [OF cl] "4.prems"(2-5) obtain x where q': "ptr b1 = Inr (Some x)"
    and fr: "mem h x = None" and x: "obj_at h1 x = Some t"
    and keep: "\<forall>y. mem h y \<noteq> None \<longrightarrow> mem h1 y = mem h y"
    by auto
  from obj_at_kept [OF al x] h' have o: "obj_at h' x = Some t" by simp
  have "\<forall>y. mem h y \<noteq> None \<longrightarrow> mem h' y = mem h y"
  proof (intro allI impI)
    fix y assume y: "mem h y \<noteq> None"
    with keep have k: "mem h1 y = mem h y" by simp
    with y alloc_fresh [OF al] have "a' \<noteq> y" by auto
    then show "mem h' y = mem h y" using k h' by (simp add: mem_alloc_store [OF al])
  qed
  then show ?case using b' q' fr o by simp
qed

text \<open>The same for the copy constructors, same-type and converting.\<close>

lemma copy_ctor_produces:
  assumes "owns s p blk u t" and "copies_as (dyn_type t) blk"
    and "copy_ctor E this p s = (Inr (), s')"
  shows "\<exists>blk' u' t'. owns s' this blk' u' t' \<and> mem (heap s) u' = None \<and>
           produced E blk t (heap s) u' t' \<and> dyn_type t' = dyn_type t \<and>
           copies_as (dyn_type t) blk' \<and> produced E blk' = produced E blk"
proof -
  from assms(1) obtain P where P: "vars s p = Some P" "m_cb P = Some blk"
    and pt: "ptr blk = Inr (Some u)" and o: "obj_at (heap s) u = Some t"
    unfolding owns_def by blast
  from o have d: "deref_ptr (Some u) (heap s) = Inr t" by (simp add: deref_ptr_def)
  from assms(3) P obtain b' h1 q where cl: "clone E blk (heap s) = (Inr b', h1)"
    and q: "ptr b' = Inr q"
    and s': "s' = \<lparr>heap = h1, vars = (vars s)(this \<mapsto> \<lparr>m_ptr = q, m_cb = Some b'\<rparr>)\<rparr>"
    by (auto simp: copy_ctor_def split: prod.splits sum.splits)
  from clone_produces [OF cl assms(2) pt d refl] q obtain u' t' where "q = Some u'"
    "mem (heap s) u' = None" "produced E blk t (heap s) u' t'" "obj_at h1 u' = Some t'"
    "dyn_type t' = dyn_type t" "copies_as (dyn_type t) b'" "produced E b' = produced E blk"
    by auto
  then show ?thesis using q s' unfolding owns_def by auto
qed

lemma copy_ctor_conv_produces:
  assumes "owns s p blk u t" and "copies_as (dyn_type t) blk" and "tmp \<noteq> this"
    and "copy_ctor_conv E this p tmp s = (Inr (), s')"
  shows "\<exists>blk' u' t'. owns s' this blk' u' t' \<and> mem (heap s) u' = None \<and>
           produced E blk t (heap s) u' t' \<and> dyn_type t' = dyn_type t \<and>
           copies_as (dyn_type t) blk' \<and> produced E blk' = produced E blk"
proof -
  from assms(4) obtain s1 where c1: "copy_ctor E tmp p s = (Inr (), s1)"
    by (auto simp: copy_ctor_conv_def split: prod.splits sum.splits)
  from copy_ctor_produces [OF assms(1,2) c1] obtain b1 u' t' where ow: "owns s1 tmp b1 u' t'"
    and fr: "mem (heap s) u' = None" and pr: "produced E blk t (heap s) u' t'"
    and D: "dyn_type t' = dyn_type t" and ca: "copies_as (dyn_type t) b1"
    and eq1: "produced E b1 = produced E blk"
    by blast
  from ow obtain X where X: "vars s1 tmp = Some X" "m_cb X = Some b1" "m_ptr X = Some u'"
    and pt: "ptr b1 = Inr (Some u')" and o: "obj_at (heap s1) u' = Some t'"
    unfolding owns_def by blast
  from assms(4) c1 X obtain a h1 where al: "alloc (heap s1) = Some (a, h1)"
    and s': "s' = dtor tmp \<lparr>heap = store a Block h1,
        vars = (vars s1)(this \<mapsto> \<lparr>m_ptr = m_ptr X, m_cb = Some (DelegatingCB a (Some b1))\<rparr>,
                         tmp \<mapsto> X\<lparr>m_cb := None\<rparr>)\<rparr>"
    by (auto simp: copy_ctor_conv_def make_delegating_control_block_def
             split: prod.splits sum.splits option.splits)
  from obj_at_kept [OF al o] have o': "obj_at (store a Block h1) u' = Some t'" .
  from s' assms(3) have
    v: "vars s' this = Some \<lparr>m_ptr = m_ptr X, m_cb = Some (DelegatingCB a (Some b1))\<rparr>"
    and h: "heap s' = store a Block h1"
    by (simp_all add: dtor_def reset_def)
  have ow': "owns s' this (DelegatingCB a (Some b1)) u' t'"
    unfolding owns_def using v h o' X(3) pt by simp
  have eq: "produced E (DelegatingCB a (Some b1)) = produced E blk"
    using eq1 by (intro ext) simp
  show ?thesis using ow' fr pr D ca eq by (intro exI [of _ "DelegatingCB a (Some b1)"]) auto
qed

text \<open>
  C2. Let \<open>a\<close> be a non-empty \<^verbatim>\<open>indirect<Derived>\<close> that satisfies the invariant and
  owns an object \<open>t\<close> at \<open>pa\<close>, with a copy strategy for the dynamic type of \<open>t\<close>.
  When \<open>a\<close> is copy-converted into \<open>b\<close> (an \<^verbatim>\<open>indirect<Base>\<close>) and \<open>b\<close> is then
  copied into \<open>c\<close>, each step makes a copy with the copy strategy of \<open>a\<close>'s block,
  the one typed for \<^verbatim>\<open>Derived\<close>: \<open>b\<close> owns an object \<open>tb\<close> which that strategy
  produced from \<open>t\<close>, and \<open>c\<close> owns an object \<open>tc\<close> which that strategy produced
  from \<open>tb\<close>. Each copy is in storage that was free before it was made, so
  \<open>pa\<close>, \<open>pb\<close> and \<open>pc\<close> are three objects, and \<open>tc\<close> has the dynamic type of
  \<open>t\<close>.
\<close>

theorem converting_copy_keeps_dynamic_type:
  assumes "vars s a = Some A" and "m_cb A = Some blk" and "invariant A"
    and "star_const A (heap s) = Inr t" and "copies_as (dyn_type t) blk"
    and "tmp \<noteq> b"
    and "copy_ctor_conv E b a tmp s = (Inr (), s1)"
    and "copy_ctor E c b s1 = (Inr (), s2)"
  shows "\<exists>B C pa pb pc tb tc.
           m_ptr A = Some pa \<and>
           vars s1 b = Some B \<and> m_ptr B = Some pb \<and> star_const B (heap s1) = Inr tb \<and>
           vars s2 c = Some C \<and> m_ptr C = Some pc \<and> star_const C (heap s2) = Inr tc \<and>
           operator_bool C \<and> invariant C \<and>
           produced E blk t (heap s) pb tb \<and> produced E blk tb (heap s1) pc tc \<and>
           dyn_type tc = dyn_type t \<and>
           mem (heap s) pb = None \<and> mem (heap s1) pc = None \<and> pb \<noteq> pa \<and> pc \<noteq> pb"
proof -
  from assms(4) obtain pa where pa: "m_ptr A = Some pa" "obj_at (heap s) pa = Some t"
    by (auto simp: star_const_def deref_ptr_def split: option.splits)
  with assms(1-3) have ow: "owns s a blk pa t"
    by (auto simp: owns_def invariant_def)
  from copy_ctor_conv_produces [OF ow assms(5,6,7)] obtain b1 pb tb
    where owb: "owns s1 b b1 pb tb" and frb: "mem (heap s) pb = None"
      and prb: "produced E blk t (heap s) pb tb" and Db: "dyn_type tb = dyn_type t"
      and cab: "copies_as (dyn_type t) b1" and eqb: "produced E b1 = produced E blk"
    by blast
  from cab Db have cab': "copies_as (dyn_type tb) b1" by simp
  from copy_ctor_produces [OF owb cab' assms(8)] obtain b2 pc tc
    where owc: "owns s2 c b2 pc tc" and frc: "mem (heap s1) pc = None"
      and prc: "produced E b1 tb (heap s1) pc tc" and Dc: "dyn_type tc = dyn_type tb"
    by blast
  from owb obtain B where B: "vars s1 b = Some B" "m_ptr B = Some pb"
    "obj_at (heap s1) pb = Some tb"
    unfolding owns_def by blast
  from owc obtain C where C: "vars s2 c = Some C" "m_cb C = Some b2" "m_ptr C = Some pc"
    "ptr b2 = Inr (Some pc)" "obj_at (heap s2) pc = Some tc"
    unfolding owns_def by blast
  from pa(2) frb have n1: "pb \<noteq> pa" using obj_at_live by fastforce
  from B(3) frc have n2: "pc \<noteq> pb" using obj_at_live by fastforce
  from prc eqb have prc': "produced E blk tb (heap s1) pc tc" by simp
  show ?thesis
    using pa(1) B C prb prc' Db Dc frb frc n1 n2
    by (auto simp: star_const_def deref_ptr_def operator_bool_def invariant_def)
qed


text \<open>
  C2, at a concrete input: the container of variable 10 adopted the \<^verbatim>\<open>Derived\<close>
  at address 0 with the default copier; it is converted into variable 12, whose copy
  is at address 2, and that is copied into variable 14, whose copy is at address 5.
\<close>

theorem converting_copy_keeps_dynamic_type_witness:
  "fst (copy_ctor_conv int_env 12 10 13 adopted_state) = Inr () \<and>
   fst (copy_ctor int_env 14 12 (snd (copy_ctor_conv int_env 12 10 13 adopted_state))) = Inr () \<and>
   map_option m_ptr (vars (snd (copy_ctor_conv int_env 12 10 13 adopted_state)) 12)
     = Some (Some 2) \<and>
   map_option m_ptr
     (vars (snd (copy_ctor int_env 14 12 (snd (copy_ctor_conv int_env 12 10 13 adopted_state))))
        14) = Some (Some 5) \<and>
   (\<exists>C tb tc.
      vars (snd (copy_ctor int_env 14 12
                   (snd (copy_ctor_conv int_env 12 10 13 adopted_state)))) 14 = Some C \<and>
      star_const C (heap (snd (copy_ctor int_env 14 12
                   (snd (copy_ctor_conv int_env 12 10 13 adopted_state))))) = Inr tc \<and>
      dyn_type tc = ''Derived'' \<and>
      produced int_env
        (PointerCB 1 (Some 0) (default_copier int_env ''Derived'') default_deleter)
        \<lparr>dyn_type = ''Derived'', val = 5\<rparr> (heap adopted_state) 2 tb \<and>
      produced int_env
        (PointerCB 1 (Some 0) (default_copier int_env ''Derived'') default_deleter)
        tb (heap (snd (copy_ctor_conv int_env 12 10 13 adopted_state))) 5 tc)"
proof -
  let ?blk = "PointerCB 1 (Some 0) (default_copier int_env ''Derived'') default_deleter :: int cb"
  let ?A = "\<lparr>m_ptr = Some 0, m_cb = Some ?blk\<rparr>"
  let ?t = "\<lparr>dyn_type = ''Derived'', val = 5 :: int\<rparr>"
  let ?r1 = "copy_ctor_conv int_env 12 10 13 adopted_state"
  let ?r2 = "copy_ctor int_env 14 12 (snd ?r1)"
  have 1: "vars adopted_state 10 = Some ?A" by (simp add: adopted_state_def)
  have 2: "m_cb ?A = Some ?blk" by simp
  have 3: "invariant ?A" by (simp add: invariant_def)
  have 4: "star_const ?A (heap adopted_state) = Inr ?t"
    by (simp add: star_const_def deref_ptr_def obj_at_def adopted_state_def)
  have 5: "copies_as (dyn_type ?t) ?blk" by (simp add: default_copier_keeps_type)
  have 6: "(13::var) \<noteq> 12" by simp
  have f1: "fst ?r1 = Inr ()"
    by (simp add: copy_ctor_conv_def copy_ctor_def adopted_state_def
        null_indirect_def make_delegating_control_block_def alloc_def dtor_def store_def
        reset_def default_copier_def int_env_def obj_at_def)
  then have 7: "?r1 = (Inr (), snd ?r1)" by (metis prod.collapse)
  have f2: "fst ?r2 = Inr ()"
    by (simp add: copy_ctor_conv_def copy_ctor_def adopted_state_def
        null_indirect_def make_delegating_control_block_def alloc_def dtor_def store_def
        reset_def default_copier_def int_env_def obj_at_def)
  then have 8: "?r2 = (Inr (), snd ?r2)" by (metis prod.collapse)
  have pb: "map_option m_ptr (vars (snd ?r1) 12) = Some (Some 2)"
    by (simp add: copy_ctor_conv_def copy_ctor_def adopted_state_def
        null_indirect_def make_delegating_control_block_def alloc_def dtor_def store_def
        reset_def default_copier_def int_env_def obj_at_def)
  have pc: "map_option m_ptr (vars (snd ?r2) 14) = Some (Some 5)"
    by (simp add: copy_ctor_conv_def copy_ctor_def adopted_state_def
        null_indirect_def make_delegating_control_block_def alloc_def dtor_def store_def
        reset_def default_copier_def int_env_def obj_at_def)
  from converting_copy_keeps_dynamic_type [OF 1 2 3 4 5 6 7 8]
  obtain B C pa pb' pc' tb tc where
    r: "m_ptr ?A = Some pa" "vars (snd ?r1) 12 = Some B" "m_ptr B = Some pb'"
      "vars (snd ?r2) 14 = Some C" "m_ptr C = Some pc'"
      "star_const C (heap (snd ?r2)) = Inr tc"
      "produced int_env ?blk ?t (heap adopted_state) pb' tb"
      "produced int_env ?blk tb (heap (snd ?r1)) pc' tc"
      "dyn_type tc = dyn_type ?t"
    by blast
  from r(2,3) pb have "pb' = 2" by simp
  moreover from r(4,5) pc have "pc' = 5" by simp
  ultimately show ?thesis using f1 f2 pb pc r by auto
qed

text \<open>
  C3. Let \<open>a\<close> be a non-empty container that satisfies the invariant and owns an
  object \<open>t\<close>, with a copy strategy that keeps its contract. Copy construction of
  \<open>b\<close> from \<open>a\<close> leaves \<open>a\<close> as it was and makes \<open>b\<close> non-empty; both
  dereference to \<open>t\<close> afterwards, at different addresses.
\<close>

theorem copy_is_equal_and_independent:
  assumes "vars s a = Some A" and "m_cb A = Some blk" and "invariant A"
    and "star_const A (heap s) = Inr t" and "copies_exactly E (dyn_type t) blk"
    and "b \<noteq> a"
    and "copy_ctor E b a s = (Inr (), s')"
  shows "\<exists>B pa pb. vars s' a = Some A \<and> vars s' b = Some B \<and> operator_bool B \<and>
           m_ptr A = Some pa \<and> m_ptr B = Some pb \<and> pb \<noteq> pa \<and>
           star_const A (heap s') = Inr t \<and> star_const B (heap s') = Inr t"
proof -
  from assms(2,3) have pt: "ptr blk = Inr (m_ptr A)" by (simp add: invariant_def)
  from assms(4) have d: "deref_ptr (m_ptr A) (heap s) = Inr t" by (simp add: star_const_def)
  then obtain pa where pa: "m_ptr A = Some pa" "obj_at (heap s) pa = Some t"
    by (auto simp: deref_ptr_def split: option.splits)
  from assms(7,1,2) obtain b' h1 q where cl: "clone E blk (heap s) = (Inr b', h1)"
    and q: "ptr b' = Inr q"
    and s': "s' = \<lparr>heap = h1, vars = (vars s)(b \<mapsto> \<lparr>m_ptr = q, m_cb = Some b'\<rparr>)\<rparr>"
    by (auto simp: copy_ctor_def split: prod.splits sum.splits)
  from clone_exact [OF cl assms(5) pt d] q obtain pb where pb: "q = Some pb"
    and fr: "mem (heap s) pb = None" and o: "obj_at h1 pb = Some t"
    and keep: "\<forall>y. mem (heap s) y \<noteq> None \<longrightarrow> mem h1 y = mem (heap s) y"
    by auto
  from pa(2) have live: "mem (heap s) pa \<noteq> None" by (rule obj_at_live)
  with fr have ne: "pb \<noteq> pa" by auto
  from live keep pa(2) have oa: "obj_at h1 pa = Some t" by (simp add: obj_at_def)
  show ?thesis
    using s' assms(1,6) pa(1) pb ne o oa
    by (simp add: star_const_def deref_ptr_def operator_bool_def)
qed

text \<open>C3, at a concrete input: variable 10 is copied into variable 12.\<close>

theorem copy_is_equal_and_independent_witness:
  "fst (copy_ctor int_env 12 10 adopted_state) = Inr () \<and>
   (\<exists>B pb. vars (snd (copy_ctor int_env 12 10 adopted_state)) 12 = Some B \<and>
      m_ptr B = Some pb \<and> pb \<noteq> 0 \<and>
      star_const B (heap (snd (copy_ctor int_env 12 10 adopted_state)))
        = Inr \<lparr>dyn_type = ''Derived'', val = 5\<rparr>)"
proof -
  let ?blk = "PointerCB 1 (Some 0) (default_copier int_env ''Derived'') default_deleter :: int cb"
  let ?A = "\<lparr>m_ptr = Some 0, m_cb = Some ?blk\<rparr>"
  let ?t = "\<lparr>dyn_type = ''Derived'', val = 5 :: int\<rparr>"
  let ?r = "copy_ctor int_env 12 10 adopted_state"
  have 1: "vars adopted_state 10 = Some ?A" by (simp add: adopted_state_def)
  have 2: "m_cb ?A = Some ?blk" by simp
  have 3: "invariant ?A" by (simp add: invariant_def)
  have 4: "star_const ?A (heap adopted_state) = Inr ?t"
    by (simp add: star_const_def deref_ptr_def obj_at_def adopted_state_def)
  have "copier_exact ''Derived'' (default_copier int_env ''Derived'')"
    by (rule default_copier_exact) (simp add: int_env_def)
  then have 5: "copies_exactly int_env (dyn_type ?t) ?blk" by simp
  have 6: "(12::var) \<noteq> 10" by simp
  have f: "fst ?r = Inr ()"
    by (simp add: copy_ctor_def adopted_state_def alloc_def store_def
        default_copier_def int_env_def obj_at_def)
  then have 7: "?r = (Inr (), snd ?r)" by (metis prod.collapse)
  from copy_is_equal_and_independent [OF 1 2 3 4 5 6 7] f
  show ?thesis by auto
qed

section \<open>Accessors on an empty container\<close>

text \<open>
  C4 as it is stated: on an empty container \<^verbatim>\<open>operator*\<close> and \<^verbatim>\<open>value()\<close> trip a
  debug assertion and \<^verbatim>\<open>operator->\<close> has none. In a debug build it is the other way
  round for the read-only forms: \<^verbatim>\<open>operator*\<close> and \<^verbatim>\<open>value()\<close> dereference the null
  pointer with no assertion before it, and the read-only \<^verbatim>\<open>operator->\<close> is the one that
  asserts.
\<close>

theorem accessors_on_empty_counterexample:
  "\<not> (star_const (null_indirect :: int indirect) no_heap
        = Inl AssertionFailure \<and>
      value_const (null_indirect :: int indirect) no_heap
        = Inl AssertionFailure \<and>
      arrow_const int_env (null_indirect :: int indirect) \<noteq> Inl AssertionFailure)"
  by (simp add: star_const_def deref_ptr_def null_indirect_def)

text \<open>
  C4, amended. On an empty container that satisfies the invariant, the read-only
  \<^verbatim>\<open>operator->\<close> fails its assertion in a debug build and returns the null pointer
  otherwise; the mutable \<^verbatim>\<open>operator->\<close> returns the null pointer in every build;
  \<^verbatim>\<open>operator*\<close> and \<^verbatim>\<open>value()\<close>, read-only and mutable, dereference the null pointer
  with no assertion, which is undefined behaviour in every build.
\<close>

theorem accessors_on_empty:
  assumes "empty_indirect c" and "invariant c"
  shows "arrow_const E c = (if debug E then Inl AssertionFailure else Inr None) \<and>
         arrow_mut c = Inr None \<and>
         star_const c h = Inl UndefinedBehaviour \<and>
         star_mut c h = Inl UndefinedBehaviour \<and>
         value_const c h = Inl UndefinedBehaviour \<and>
         value_mut c h = Inl UndefinedBehaviour"
  using assms
  by (simp add: empty_indirect_def invariant_def arrow_const_def arrow_mut_def star_const_def
      star_mut_def value_const_def value_mut_def deref_ptr_def)


text \<open>C4, amended, at the default-constructed container in a debug build.\<close>

theorem accessors_on_empty_witness:
  "empty_indirect (null_indirect :: int indirect) \<and> invariant (null_indirect :: int indirect) \<and>
   arrow_const int_env (null_indirect :: int indirect) = Inl AssertionFailure \<and>
   star_const (null_indirect :: int indirect) no_heap
     = Inl UndefinedBehaviour"
proof -
  have e: "empty_indirect (null_indirect :: int indirect)"
    by (simp add: empty_indirect_def null_indirect_def)
  have i: "invariant (null_indirect :: int indirect)"
    by (simp add: invariant_def null_indirect_def)
  show ?thesis
    using e i accessors_on_empty [OF e i, of int_env no_heap]
    by (simp add: int_env_def)
qed

section \<open>Moving and swapping\<close>




text \<open>
  C8. \<^verbatim>\<open>swap(a, b)\<close> exchanges the blocks and cached pointers of the two containers,
  touches no other variable and leaves the free store as it is (nothing is cloned or
  allocated); a second \<^verbatim>\<open>swap(a, b)\<close> restores the state exactly.
\<close>

theorem swap_exchanges_and_undoes_itself:
  assumes "vars s a = Some A" and "vars s b = Some B"
  shows "\<exists>s'. swap_indirect a b s = (Inr (), s') \<and> heap s' = heap s \<and>
           vars s' a = Some B \<and> vars s' b = Some A \<and>
           (\<forall>x. x \<noteq> a \<and> x \<noteq> b \<longrightarrow> vars s' x = vars s x) \<and>
           swap_indirect a b s' = (Inr (), s)"
proof -
  let ?s' = "s\<lparr>vars := (vars s)(a \<mapsto> B, b \<mapsto> A)\<rparr>"
  have 1: "swap_indirect a b s = (Inr (), ?s')"
    using assms by (simp add: swap_indirect_def swap_member_def indirect_eta)
  have 2: "vars ?s' a = Some B" "vars ?s' b = Some A"
    using assms by auto
  have 3: "swap_indirect a b ?s' = (Inr (), ?s'\<lparr>vars := (vars ?s')(a \<mapsto> A, b \<mapsto> B)\<rparr>)"
    unfolding swap_indirect_def swap_member_def 2 by (simp add: indirect_eta)
  have 4: "?s'\<lparr>vars := (vars ?s')(a \<mapsto> A, b \<mapsto> B)\<rparr> = s"
    by (rule state.equality) (auto simp: fun_eq_iff assms)
  show ?thesis using 1 2 3 4 by simp
qed


text \<open>C8, at a concrete input: variables 10 and 11 are swapped, twice.\<close>

theorem swap_exchanges_and_undoes_itself_witness:
  "\<exists>s'. swap_indirect 10 11 adopted_state = (Inr (), s') \<and> heap s' = heap adopted_state \<and>
     vars s' 10 = vars adopted_state 11 \<and> vars s' 11 = vars adopted_state 10 \<and>
     swap_indirect 10 11 s' = (Inr (), adopted_state)"
proof -
  let ?blk = "PointerCB 1 (Some 0) (default_copier int_env ''Derived'') default_deleter :: int cb"
  let ?A = "\<lparr>m_ptr = Some 0, m_cb = Some ?blk\<rparr>"
  have 1: "vars adopted_state 10 = Some ?A" by (simp add: adopted_state_def)
  have 2: "vars adopted_state 11 = Some null_indirect" by (simp add: adopted_state_def)
  from swap_exchanges_and_undoes_itself [OF 1 2] 1 2
  show ?thesis by auto
qed

section \<open>Adoption\<close>

text \<open>
  C7 as it is stated: for a non-null pointer the constructor asserts, in a debug
  build, that the dynamic type of the object pointed to is exactly \<open>U\<close>. For a \<open>U\<close>
  that is not polymorphic it does not: the \<^verbatim>\<open>NDerived\<close> object at address 0,
  adopted through an \<^verbatim>\<open>NBase*\<close> in a debug build, passes the assertion and is owned.
\<close>

theorem adopt_ctor_behaviour_counterexample:
  "debug int_env \<and>
   obj_at (heap plain_state) 0 = Some \<lparr>dyn_type = ''NDerived'', val = 5\<rparr> \<and>
   adopt_ctor int_env ''NBase'' (Some 0) (default_copier int_env ''NBase'') default_deleter 10
     plain_state \<noteq> (Inl AssertionFailure, plain_state) \<and>
   fst (adopt_ctor int_env ''NBase'' (Some 0) (default_copier int_env ''NBase'') default_deleter
          10 plain_state) = Inr ()"
  by (simp add: adopt_ctor_def typeid_deref_def int_env_def plain_state_def obj_at_def
      alloc_def)

text \<open>
  C7, amended. \<^verbatim>\<open>indirect(U* u, copier, deleter)\<close>: for a null \<open>u\<close> the result is
  the empty container. For a non-null \<open>u\<close> a debug build asserts
  \<^verbatim>\<open>typeid(*u) == typeid(U)\<close>, which compares the dynamic type of the object with
  \<open>U\<close> when \<open>U\<close> is polymorphic, and fails when they differ; for a \<open>U\<close> that is not
  polymorphic the assertion always holds. When the assertion holds (or is compiled
  out) and the block can be allocated, the container caches \<open>u\<close> and owns a
  pointer-adopting block that stores \<open>u\<close>, the copier and the deleter.
\<close>

theorem adopt_ctor_behaviour:
  "adopt_ctor E U None c d x s = (Inr (), s\<lparr>vars := (vars s)(x \<mapsto> null_indirect)\<rparr>) \<and>
   \<not> operator_bool (null_indirect :: 'v indirect) \<and>
   (debug E \<and> polymorphic E U \<and> obj_at (heap s) u = Some t \<and> dyn_type t \<noteq> U \<longrightarrow>
      adopt_ctor E U (Some u) c d x s = (Inl AssertionFailure, s)) \<and>
   ((debug E \<and> polymorphic E U \<longrightarrow> (\<exists>t. obj_at (heap s) u = Some t \<and> dyn_type t = U)) \<and>
    alloc (heap s) = Some (a, h1) \<longrightarrow>
      adopt_ctor E U (Some u) c d x (s :: 'v state) =
        (Inr (),
         \<lparr>heap = store a Block h1,
          vars = (vars s)(x \<mapsto>
            \<lparr>m_ptr = Some u, m_cb = Some (PointerCB a (Some u) c d)\<rparr>)\<rparr>))"
  by (auto simp: adopt_ctor_def typeid_deref_def null_indirect_def operator_bool_def)

text \<open>
  C7, amended, at concrete inputs: the \<^verbatim>\<open>Derived\<close> object at address 0 is adopted
  as a \<^verbatim>\<open>Base\<close> (the assertion fails) and as a \<^verbatim>\<open>Derived\<close> (it is owned); the
  \<^verbatim>\<open>NDerived\<close> object is adopted as an \<^verbatim>\<open>NBase\<close> (it is owned).
\<close>

theorem adopt_ctor_behaviour_witness:
  "adopt_ctor int_env ''Base'' (Some 0) (default_copier int_env ''Base'') default_deleter 10
     unowned_state = (Inl AssertionFailure, unowned_state) \<and>
   adopt_ctor int_env ''Derived'' (Some 0) (default_copier int_env ''Derived'') default_deleter 10
     unowned_state =
     (Inr (),
      \<lparr>heap = store 1 Block ((heap unowned_state)\<lparr>avail := []\<rparr>),
       vars = (vars unowned_state)(10 \<mapsto>
         \<lparr>m_ptr = Some 0,
          m_cb = Some (PointerCB 1 (Some 0) (default_copier int_env ''Derived'')
                         default_deleter)\<rparr>)\<rparr>) \<and>
   adopt_ctor int_env ''NBase'' (Some 0) (default_copier int_env ''NBase'') default_deleter 10
     plain_state =
     (Inr (),
      \<lparr>heap = store 1 Block ((heap plain_state)\<lparr>avail := []\<rparr>),
       vars = (vars plain_state)(10 \<mapsto>
         \<lparr>m_ptr = Some 0,
          m_cb = Some (PointerCB 1 (Some 0) (default_copier int_env ''NBase'')
                         default_deleter)\<rparr>)\<rparr>)"
proof -
  let ?t = "\<lparr>dyn_type = ''Derived'', val = 5 :: int\<rparr>"
  let ?n = "\<lparr>dyn_type = ''NDerived'', val = 5 :: int\<rparr>"
  have d: "debug int_env" by (simp add: int_env_def)
  have pb: "polymorphic int_env ''Base''" by (simp add: int_env_def)
  have np: "\<not> polymorphic int_env ''NBase''" by (simp add: int_env_def)
  have o: "obj_at (heap unowned_state) 0 = Some ?t"
    by (simp add: obj_at_def unowned_state_def)
  have al: "alloc (heap unowned_state) = Some (1, (heap unowned_state)\<lparr>avail := []\<rparr>)"
    by (simp add: alloc_def unowned_state_def)
  have al': "alloc (heap plain_state) = Some (1, (heap plain_state)\<lparr>avail := []\<rparr>)"
    by (simp add: alloc_def plain_state_def)
  have n: "dyn_type ?t \<noteq> ''Base''" by simp
  have y: "\<exists>t. obj_at (heap unowned_state) 0 = Some t \<and> dyn_type t = ''Derived''"
    using o by simp
  show ?thesis
    using adopt_ctor_behaviour [of int_env "''Base''" "default_copier int_env ''Base''"
        default_deleter 10 unowned_state 0 ?t 1 "(heap unowned_state)\<lparr>avail := []\<rparr>"]
      adopt_ctor_behaviour [of int_env "''Derived''" "default_copier int_env ''Derived''"
        default_deleter 10 unowned_state 0 ?t 1 "(heap unowned_state)\<lparr>avail := []\<rparr>"]
      adopt_ctor_behaviour [of int_env "''NBase''" "default_copier int_env ''NBase''"
        default_deleter 10 plain_state 0 ?n 1 "(heap plain_state)\<lparr>avail := []\<rparr>"]
      d pb np o al al' n y
    by blast
qed

section \<open>The factory and emplace\<close>

text \<open>
  C9. For an integer-like \<open>T\<close>, \<^verbatim>\<open>make_indirect<T>(5)\<close> gives a non-empty container
  that dereferences to the value 5; \<^verbatim>\<open>emplace(7)\<close> on it gives a non-empty container
  that dereferences to the value 7, and the address of the owned object has changed.
\<close>

theorem make_indirect_then_emplace:
  fixes E :: "(int, int) env"
  assumes "construct E T 5 = Inr 5" and "construct E T 7 = Inr 7" and "p \<noteq> x"
    and "make_indirect E T 5 x p s = (Inr (), s1)"
    and "emplace E T 7 x s1 = (Inr (), s2)"
  shows "\<exists>X1 X2 a1 a2 t1 t2.
           vars s1 x = Some X1 \<and> operator_bool X1 \<and> m_ptr X1 = Some a1 \<and>
           star_const X1 (heap s1) = Inr t1 \<and> val t1 = 5 \<and>
           vars s2 x = Some X2 \<and> operator_bool X2 \<and> m_ptr X2 = Some a2 \<and>
           star_const X2 (heap s2) = Inr t2 \<and> val t2 = 7 \<and> a2 \<noteq> a1"
proof -
  from assms(4,1) obtain a h1 where al: "alloc (heap s) = Some (a, h1)"
    by (auto simp: make_indirect_def default_ctor_def make_direct_control_block_def
             split: option.splits)
  let ?X1 = "\<lparr>m_ptr = Some a, m_cb = Some (DirectCB a :: int cb)\<rparr>"
  let ?h1 = "store a (DirectBlock \<lparr>dyn_type = T, val = 5\<rparr>) h1"
  from assms(4,1,3) al have s1: "vars s1 x = Some ?X1" "heap s1 = ?h1"
    by (auto simp: make_indirect_def default_ctor_def make_direct_control_block_def
          move_ctor_def dtor_def reset_def)
  have o1: "obj_at ?h1 a = Some \<lparr>dyn_type = T, val = 5\<rparr>"
    by (rule obj_at_new(2) [OF al])
  from assms(5,2) s1 obtain a' h2 where al2: "alloc ?h1 = Some (a', h2)"
    by (auto simp: emplace_def make_direct_control_block_def split: option.splits)
  let ?X2 = "\<lparr>m_ptr = Some a', m_cb = Some (DirectCB a' :: int cb)\<rparr>"
  let ?h2 = "free a (store a' (DirectBlock \<lparr>dyn_type = T, val = 7\<rparr>) h2)"
  from assms(5,2) s1 al2 have s2: "vars s2 x = Some ?X2" "heap s2 = ?h2"
    by (auto simp: emplace_def make_direct_control_block_def reset_def)
  from obj_at_live [OF o1] alloc_fresh [OF al2] have ne: "a' \<noteq> a" by auto
  have "obj_at (store a' (DirectBlock \<lparr>dyn_type = T, val = 7\<rparr>) h2) a'
          = Some \<lparr>dyn_type = T, val = 7\<rparr>"
    by (rule obj_at_new(2) [OF al2])
  with ne have o2: "obj_at ?h2 a' = Some \<lparr>dyn_type = T, val = 7\<rparr>"
    by (simp add: obj_at_def free_def)
  show ?thesis
    using s1 s2 o1 o2 ne by (simp add: star_const_def deref_ptr_def operator_bool_def)
qed

text \<open>C9, at a concrete input: the factory and \<^verbatim>\<open>emplace\<close> run in the fresh state.\<close>

theorem make_indirect_then_emplace_witness:
  "fst (make_indirect int_env ''int'' 5 10 99 fresh_state) = Inr () \<and>
   fst (emplace int_env ''int'' 7 10 (snd (make_indirect int_env ''int'' 5 10 99 fresh_state)))
     = Inr () \<and>
   (\<exists>X1 X2 a1 a2 t1 t2.
      vars (snd (make_indirect int_env ''int'' 5 10 99 fresh_state)) 10 = Some X1 \<and>
      m_ptr X1 = Some a1 \<and>
      star_const X1 (heap (snd (make_indirect int_env ''int'' 5 10 99 fresh_state))) = Inr t1 \<and>
      val t1 = 5 \<and>
      vars (snd (emplace int_env ''int'' 7 10
                   (snd (make_indirect int_env ''int'' 5 10 99 fresh_state)))) 10 = Some X2 \<and>
      m_ptr X2 = Some a2 \<and>
      star_const X2 (heap (snd (emplace int_env ''int'' 7 10
                   (snd (make_indirect int_env ''int'' 5 10 99 fresh_state))))) = Inr t2 \<and>
      val t2 = 7 \<and> a2 \<noteq> a1)"
proof -
  let ?r1 = "make_indirect int_env ''int'' 5 10 99 fresh_state"
  let ?r2 = "emplace int_env ''int'' 7 10 (snd ?r1)"
  have 1: "construct int_env ''int'' 5 = Inr 5" by (simp add: int_env_def)
  have 2: "construct int_env ''int'' 7 = Inr 7" by (simp add: int_env_def)
  have 3: "(99::var) \<noteq> 10" by simp
  have f1: "fst ?r1 = Inr ()"
    by (simp add: make_indirect_def default_ctor_def move_ctor_def fresh_state_def
        alloc_def dtor_def store_def reset_def int_env_def null_indirect_def
        make_direct_control_block_def)
  then have 4: "?r1 = (Inr (), snd ?r1)" by (metis prod.collapse)
  have f2: "fst ?r2 = Inr ()"
    by (simp add: make_indirect_def default_ctor_def move_ctor_def emplace_def fresh_state_def
        alloc_def dtor_def store_def reset_def int_env_def null_indirect_def
        make_direct_control_block_def)
  then have 5: "?r2 = (Inr (), snd ?r2)" by (metis prod.collapse)
  from make_indirect_then_emplace [OF 1 2 3 4 5] f1 f2
  show ?thesis by blast
qed

text \<open>
  C10. \<^verbatim>\<open>emplace\<close> gives the strong guarantee: whenever it throws, every container
  (so the block and the cached pointer of the one it was called on) and every cell of
  the free store is what it was before the call; and when the constructor of \<open>T\<close>
  throws on the arguments, \<^verbatim>\<open>emplace\<close> does throw, with that outcome.
\<close>

theorem emplace_strong_guarantee:
  "(emplace E T ts x s = (Inl e, s') \<longrightarrow> vars s' = vars s \<and> mem (heap s') = mem (heap s)) \<and>
   (construct E T ts = Inl e \<longrightarrow>
      (\<exists>e' s'. emplace E T ts x s = (Inl e', s') \<and> vars s' = vars s \<and>
         mem (heap s') = mem (heap s)))"
  by (auto simp: emplace_def make_direct_control_block_def mem_alloc_free
           split: option.splits sum.splits prod.splits)

text \<open>
  C10, at a concrete input: \<^verbatim>\<open>emplace(7)\<close> on the container of variable 10, for a
  type whose constructor throws after the storage at address 2 was obtained.
\<close>

theorem emplace_strong_guarantee_witness:
  "construct throwing_env ''T'' 7 = Inl UserException \<and>
   fst (emplace throwing_env ''T'' 7 10 adopted_state) = Inl UserException \<and>
   vars (snd (emplace throwing_env ''T'' 7 10 adopted_state)) = vars adopted_state \<and>
   mem (heap (snd (emplace throwing_env ''T'' 7 10 adopted_state))) = mem (heap adopted_state) \<and>
   avail (heap (snd (emplace throwing_env ''T'' 7 10 adopted_state))) = [3, 4, 5, 6, 7]"
proof -
  let ?r = "emplace throwing_env ''T'' 7 10 adopted_state"
  have 1: "construct throwing_env ''T'' 7 = Inl UserException" by (simp add: throwing_env_def)
  have f: "fst ?r = Inl UserException"
    by (simp add: emplace_def make_direct_control_block_def alloc_def adopted_state_def
        throwing_env_def)
  then have 2: "?r = (Inl UserException, snd ?r)" by (metis prod.collapse)
  have a: "avail (heap (snd ?r)) = [3, 4, 5, 6, 7]"
    by (simp add: emplace_def make_direct_control_block_def alloc_def adopted_state_def
        throwing_env_def free_def)
  from emplace_strong_guarantee
    [of throwing_env "''T''" 7 10 adopted_state UserException "snd ?r"] 1 2 f a
  show ?thesis by blast
qed

section \<open>Copy assignment when the clone throws\<close>

text \<open>
  Whenever the same-type copy assignment throws, no container has been modified: the
  target keeps its block and its cached pointer.
\<close>

lemma copy_assign_failure_keeps_containers:
  "copy_assign E this p s = (Inl e, s') \<Longrightarrow> vars s' = vars s"
  by (auto simp: copy_assign_def split: if_splits option.splits prod.splits sum.splits)

text \<open>
  C6. The copy assignment would leave the target unmodified and discard the
  incomplete clone without a leak when the clone throws. The first half holds. The
  second does not: in \<open>scarce_state\<close> one allocation is possible. The copier of the
  source's pointer-adopting block takes it for the copy of the object (address 2) and
  returns a raw pointer; the allocation of the new control block then throws
  \<^verbatim>\<open>std::bad_alloc\<close>. The assignment throws with every container unmodified, and the
  copy at address 2 stays allocated with no owner.
\<close>

theorem copy_assign_leaks_on_bad_alloc:
  "fst (copy_assign int_env 11 10 scarce_state) = Inl BadAlloc \<and>
   vars (snd (copy_assign int_env 11 10 scarce_state)) = vars scarce_state \<and>
   mem (heap scarce_state) 2 = None \<and>
   mem (heap (snd (copy_assign int_env 11 10 scarce_state))) 2 =
     Some (Object \<lparr>dyn_type = ''Derived'', val = 5\<rparr>) \<and>
   leaked (snd (copy_assign int_env 11 10 scarce_state)) 2"
proof -
  have r: "copy_assign int_env 11 10 scarce_state =
    (Inl BadAlloc,
     scarce_state\<lparr>heap := \<lparr>mem = [0 \<mapsto> Object \<lparr>dyn_type = ''Derived'', val = 5\<rparr>, 1 \<mapsto> Block,
                                  2 \<mapsto> Object \<lparr>dyn_type = ''Derived'', val = 5\<rparr>],
                           avail = []\<rparr>\<rparr>)"
    by (simp add: copy_assign_def scarce_state_def adopted_state_def null_indirect_def
        default_copier_def int_env_def alloc_def store_def obj_at_def)
  show ?thesis
    unfolding r
    by (simp add: scarce_state_def adopted_state_def leaked_def null_indirect_def)
qed

end
